theory Spec2Isabelle
  imports Complex_Main
begin

section \<open>Document validation agent: the retrieval and validation pipeline\<close>

text \<open>
  A shallow embedding of \<^verbatim>\<open>Updated Document validation agent/app.py\<close>. Python values
  that cross the untyped boundaries of the program (the completion text, the decoded JSON,
  the bodies of provider responses) are values of one datatype; every exception of the
  source is a value of \<open>error\<close>; the chunking loop, which the source does not guard against
  a window that never advances, is a partial function whose value \<open>None\<close> means that the
  loop does not return.

  Python strings are modelled as \<open>string\<close>; a \<open>char\<close> stands for one code point below
  256. A Python float is a number, an infinity or NaN; a number stands for the double
  nearest to it (rounding inside the range of the doubles is not modelled, overflow and
  underflow are). What numpy and faiss compute in single precision is not modelled at
  all: it is a parameter of the program, see \<open>numeric\<close> below.
\<close>

subsection \<open>Python values and exceptions\<close>

datatype pyfloat = Num real | PosInf | NegInf | NaN

datatype pyval =
    PNone
  | PBool bool
  | PInt int
  | PFloat pyfloat
  | PStr string
  | PList "pyval list"
  | PDict "(string \<times> pyval) list"

datatype error =
    RuntimeError string
  | HTTPException int string
  | TypeError
  | KeyError
  | IndexError
  | ValueError
  | AttributeError
  | JSONDecodeError
  | LibraryError

text \<open>
  \<open>LibraryError\<close> is an exception raised inside a call of numpy or faiss (a
  \<^verbatim>\<open>ValueError\<close>, \<^verbatim>\<open>TypeError\<close> or \<^verbatim>\<open>AssertionError\<close> of the library); the program
  catches none of them and never tells them apart.
\<close>

text \<open>Truth value testing, as \<^verbatim>\<open>if not x\<close> and \<^verbatim>\<open>x or y\<close> do it.\<close>

fun truthy :: "pyval \<Rightarrow> bool" where
  "truthy PNone = False"
| "truthy (PBool b) = b"
| "truthy (PInt i) = (i \<noteq> 0)"
| "truthy (PFloat f) = (f \<noteq> Num 0)"
| "truthy (PStr s) = (s \<noteq> [])"
| "truthy (PList xs) = (xs \<noteq> [])"
| "truthy (PDict kvs) = (kvs \<noteq> [])"

subsection \<open>Chunking\<close>

text \<open>
  \<^verbatim>\<open>xs[start:stop]\<close> for integer bounds: a negative bound counts from the end, and both
  bounds are clamped to the sequence.
\<close>

definition py_slice :: "'a list \<Rightarrow> int \<Rightarrow> int \<Rightarrow> 'a list" where
  "py_slice xs start stop =
     (let n = int (length xs);
          lo = (if start < 0 then max (start + n) 0 else min start n);
          hi = (if stop < 0 then max (stop + n) 0 else min stop n)
      in take (nat (hi - lo)) (drop (nat lo) xs))"

text \<open>
  \<^verbatim>\<open>
  def chunk_text(text, chunk_size=800, overlap=100):
      chunks = []
      start = 0
      while start < len(text):
          end = start + chunk_size
          chunks.append(text[start:end])
          start = end - overlap
      return chunks
  \<close>
  \<open>chunk_loop\<close> is the \<^verbatim>\<open>while\<close> loop with its two variables \<open>start\<close> and \<open>chunks\<close>.
\<close>

partial_function (option) chunk_loop ::
  "string \<Rightarrow> int \<Rightarrow> int \<Rightarrow> int \<Rightarrow> string list \<Rightarrow> string list option" where
  "chunk_loop text chunk_size overlap start chunks =
     (if start < int (length text)
      then chunk_loop text chunk_size overlap (start + chunk_size - overlap)
             (chunks @ [py_slice text start (start + chunk_size)])
      else Some chunks)"

declare chunk_loop.simps [code]

definition chunk_text :: "string \<Rightarrow> int \<Rightarrow> int \<Rightarrow> string list option" where
  "chunk_text text chunk_size overlap = chunk_loop text chunk_size overlap 0 []"

text \<open>The \<open>k\<close>-th window of the loop, and the number of windows it emits from \<open>start\<close> on.\<close>

definition window :: "string \<Rightarrow> int \<Rightarrow> int \<Rightarrow> int \<Rightarrow> nat \<Rightarrow> string" where
  "window text chunk_size overlap start k =
     py_slice text (start + int k * (chunk_size - overlap))
       (start + int k * (chunk_size - overlap) + chunk_size)"

definition window_count :: "string \<Rightarrow> int \<Rightarrow> int \<Rightarrow> int \<Rightarrow> nat" where
  "window_count text chunk_size overlap start =
     nat (- ((start - int (length text)) div (chunk_size - overlap)))"

text \<open>The text of the end-to-end scenario: \<^verbatim>\<open>"Hello world. " * 100\<close>.\<close>

definition hello_text :: string where
  "hello_text = concat (replicate 100 ''Hello world. '')"

subsection \<open>Sequences and mappings\<close>

text \<open>\<^verbatim>\<open>xs[i]\<close> on a list: a negative index counts from the end; out of range raises.\<close>

definition py_index :: "'a list \<Rightarrow> int \<Rightarrow> error + 'a" where
  "py_index xs i =
     (let n = int (length xs); j = (if i < 0 then i + n else i)
      in if 0 \<le> j \<and> j < n then Inr (xs ! nat j) else Inl IndexError)"

text \<open>\<^verbatim>\<open>[xs[i] for i in indices]\<close>: the first failing subscript aborts the comprehension.\<close>

fun py_index_all :: "'a list \<Rightarrow> int list \<Rightarrow> error + 'a list" where
  "py_index_all xs [] = Inr []"
| "py_index_all xs (i # rest) =
     (case py_index xs i of
        Inl e \<Rightarrow> Inl e
      | Inr x \<Rightarrow> (case py_index_all xs rest of Inl e \<Rightarrow> Inl e | Inr ys \<Rightarrow> Inr (x # ys)))"

text \<open>
  A dict is an association list in insertion order. \<open>dict_set\<close> is \<^verbatim>\<open>d[k] = v\<close>: an
  existing key keeps its place and takes the new value.
\<close>

fun dict_set :: "(string \<times> pyval) list \<Rightarrow> string \<Rightarrow> pyval \<Rightarrow> (string \<times> pyval) list" where
  "dict_set [] k v = [(k, v)]"
| "dict_set ((k', v') # kvs) k v =
     (if k' = k then (k, v) # kvs else (k', v') # dict_set kvs k v)"

text \<open>\<^verbatim>\<open>obj.get(key, default)\<close>: only a dict has the method.\<close>

definition py_get :: "pyval \<Rightarrow> string \<Rightarrow> pyval \<Rightarrow> error + pyval" where
  "py_get obj k dflt =
     (case obj of
        PDict kvs \<Rightarrow> Inr (case map_of kvs k of None \<Rightarrow> dflt | Some v \<Rightarrow> v)
      | _ \<Rightarrow> Inl AttributeError)"

text \<open>\<^verbatim>\<open>obj["key"]\<close> and \<^verbatim>\<open>obj[i]\<close> on a decoded JSON value (whose dict keys are strings).\<close>

definition item_str :: "pyval \<Rightarrow> string \<Rightarrow> error + pyval" where
  "item_str obj k =
     (case obj of
        PDict kvs \<Rightarrow> (case map_of kvs k of None \<Rightarrow> Inl KeyError | Some v \<Rightarrow> Inr v)
      | _ \<Rightarrow> Inl TypeError)"

definition item_int :: "pyval \<Rightarrow> int \<Rightarrow> error + pyval" where
  "item_int obj i =
     (case obj of
        PList xs \<Rightarrow> py_index xs i
      | PStr s \<Rightarrow> (case py_index s i of Inl e \<Rightarrow> Inl e | Inr c \<Rightarrow> Inr (PStr [c]))
      | PDict kvs \<Rightarrow> Inl KeyError
      | _ \<Rightarrow> Inl TypeError)"

text \<open>\<^verbatim>\<open>len(obj)\<close>.\<close>

definition py_len :: "pyval \<Rightarrow> error + nat" where
  "py_len obj =
     (case obj of
        PStr s \<Rightarrow> Inr (length s)
      | PList xs \<Rightarrow> Inr (length xs)
      | PDict kvs \<Rightarrow> Inr (length kvs)
      | _ \<Rightarrow> Inl TypeError)"

text \<open>Sequencing of steps that may raise: the first exception ends the chain.\<close>

definition and_then :: "error + 'a \<Rightarrow> ('a \<Rightarrow> error + 'b) \<Rightarrow> error + 'b" where
  "and_then r f = (case r of Inl e \<Rightarrow> Inl e | Inr x \<Rightarrow> f x)"

subsection \<open>Strings\<close>

text \<open>\<^verbatim>\<open>str.strip()\<close>: the whitespace code points below 256.\<close>

definition py_isspace :: "char \<Rightarrow> bool" where
  "py_isspace c =
     (let n = (of_char c :: nat)
      in (9 \<le> n \<and> n \<le> 13) \<or> (28 \<le> n \<and> n \<le> 32) \<or> n = 133 \<or> n = 160)"

definition py_strip :: "string \<Rightarrow> string" where
  "py_strip s = rev (dropWhile py_isspace (rev (dropWhile py_isspace s)))"

text \<open>\<^verbatim>\<open>sep.join(parts)\<close>.\<close>

fun py_join :: "string \<Rightarrow> string list \<Rightarrow> string" where
  "py_join sep [] = []"
| "py_join sep [x] = x"
| "py_join sep (x # y # rest) = x @ sep @ py_join sep (y # rest)"

text \<open>
  \<^verbatim>\<open>re.sub(r"```json|```", "", ai_text)\<close>: scanning from the left, every occurrence of
  the longer fence and then of the bare fence is removed; the other characters stay.
\<close>

function remove_fences :: "string \<Rightarrow> string" where
  "remove_fences [] = []"
| "remove_fences (c # cs) =
     (if take 7 (c # cs) = ''```json'' then remove_fences (drop 6 cs)
      else if take 3 (c # cs) = ''```'' then remove_fences (drop 2 cs)
      else c # remove_fences cs)"
  by pat_completeness auto
termination
  by (relation "measure length") auto

subsection \<open>The JSON decoder\<close>

text \<open>
  \<^verbatim>\<open>json.loads\<close> belongs to the standard library, not to the program. The program is
  modelled over an arbitrary decoder \<open>loads\<close>, which returns a value or raises; \<open>json_loads\<close>
  below is a reference decoder, used where a statement needs a decoder that runs. It
  covers objects, arrays, strings with their escapes, numbers, the literals \<^verbatim>\<open>null\<close>,
  \<^verbatim>\<open>true\<close>, \<^verbatim>\<open>false\<close> and the library's own \<^verbatim>\<open>NaN\<close>, \<^verbatim>\<open>Infinity\<close>, \<^verbatim>\<open>-Infinity\<close>;
  duplicate keys keep the last value; an integer of more than 4300 digits raises
  \<^verbatim>\<open>ValueError\<close>, as the interpreter's limit on the conversion of integers does.
  Outside its scope: \<^verbatim>\<open>\u\<close> escapes of code points above 255 (rejected here), and the
  \<^verbatim>\<open>RecursionError\<close> that the library raises on nesting deeper than the interpreter's
  stack allows (no such limit here).
\<close>

definition json_ws :: "char \<Rightarrow> bool" where
  "json_ws c = (c = CHR '' '' \<or> c = CHR 0x09 \<or> c = CHR 0x0A \<or> c = CHR 0x0D)"

definition skip_ws :: "string \<Rightarrow> string" where
  "skip_ws s = dropWhile json_ws s"

definition is_digit :: "char \<Rightarrow> bool" where
  "is_digit c = (let n = (of_char c :: nat) in 48 \<le> n \<and> n \<le> 57)"

definition digits_val :: "string \<Rightarrow> nat" where
  "digits_val ds = foldl (\<lambda>a c. 10 * a + (of_char c - 48)) 0 ds"

definition hex_val :: "char \<Rightarrow> nat option" where
  "hex_val c =
     (let n = (of_char c :: nat)
      in if 48 \<le> n \<and> n \<le> 57 then Some (n - 48)
         else if 65 \<le> n \<and> n \<le> 70 then Some (n - 55)
         else if 97 \<le> n \<and> n \<le> 102 then Some (n - 87)
         else None)"

fun hex_digits :: "string \<Rightarrow> nat \<Rightarrow> nat option" where
  "hex_digits [] acc = Some acc"
| "hex_digits (c # cs) acc =
     (case hex_val c of None \<Rightarrow> None | Some h \<Rightarrow> hex_digits cs (16 * acc + h))"

definition unescape :: "char \<Rightarrow> char option" where
  "unescape e =
     (if e = CHR 0x22 \<or> e = CHR 0x5C \<or> e = CHR ''/'' then Some e
      else if e = CHR ''b'' then Some (CHR 0x08)
      else if e = CHR ''f'' then Some (CHR 0x0C)
      else if e = CHR ''n'' then Some (CHR 0x0A)
      else if e = CHR ''r'' then Some (CHR 0x0D)
      else if e = CHR ''t'' then Some (CHR 0x09)
      else None)"

text \<open>
  The characters of a string after its opening quote, up to the closing quote. A raw
  control character ends the decoding (the decoder is strict).
\<close>

function json_string :: "string \<Rightarrow> string \<Rightarrow> (string \<times> string) option" where
  "json_string [] acc = None"
| "json_string (c # cs) acc =
     (if c = CHR 0x22 then Some (acc, cs)
      else if c = CHR 0x5C then
        (case cs of
           [] \<Rightarrow> None
         | e # r \<Rightarrow>
             if e = CHR ''u'' then
               (if length r < 4 then None
                else
                  (case hex_digits (take 4 r) 0 of
                     None \<Rightarrow> None
                   | Some n \<Rightarrow> if n < 256 then json_string (drop 4 r) (acc @ [char_of n])
                               else None))
             else (case unescape e of
                     None \<Rightarrow> None
                   | Some x \<Rightarrow> json_string r (acc @ [x])))
      else if (of_char c :: nat) < 32 then None
      else json_string cs (acc @ [c]))"
  by pat_completeness auto
termination
  by (relation "measure (\<lambda>(s, acc). length s)") auto

text \<open>
  The double of a decimal literal: beyond the largest double it is an infinity, at or
  below half the smallest double it is zero.
\<close>

definition to_double :: "real \<Rightarrow> pyfloat" where
  "to_double x =
     (if 2 ^ 1024 - 2 ^ 970 \<le> x then PosInf
      else if x \<le> - (2 ^ 1024 - 2 ^ 970) then NegInf
      else if \<bar>x\<bar> \<le> 1 / 2 ^ 1075 then Num 0
      else Num x)"

text \<open>
  A number: \<^verbatim>\<open>(-?(?:0|[1-9]\d*))(\.\d+)?([eE][-+]?\d+)?\<close>. Without fraction and exponent
  it is an \<^verbatim>\<open>int\<close>, otherwise a \<^verbatim>\<open>float\<close>.
\<close>

definition json_number :: "string \<Rightarrow> error + (pyval \<times> string)" where
  "json_number s =
     (let neg = (take 1 s = ''-'');
          r0 = (if neg then drop 1 s else s);
          ds = takeWhile is_digit r0;
          ip = (if take 1 ds = ''0'' then ''0'' else ds);
          r1 = drop (length ip) r0;
          fd = (if take 1 r1 = ''.'' then takeWhile is_digit (drop 1 r1) else []);
          r2 = (if fd = [] then r1 else drop (Suc (length fd)) r1);
          has_e = (take 1 r2 = ''e'' \<or> take 1 r2 = ''E'');
          r2s = drop 1 r2;
          eneg = (take 1 r2s = ''-'');
          r2d = (if take 1 r2s = ''-'' \<or> take 1 r2s = ''+'' then drop 1 r2s else r2s);
          ed = (if has_e then takeWhile is_digit r2d else []);
          r3 = (if ed = [] then r2 else drop (length ed) r2d);
          sgn = (if neg then - 1 else 1)
      in if ip = [] then Inl JSONDecodeError
         else if fd = [] \<and> ed = [] then
           (if 4300 < length ip then Inl ValueError
            else Inr (PInt (sgn * int (digits_val ip)), r3))
         else Inr (PFloat (to_double (real_of_int sgn
                      * (real (digits_val ip) + real (digits_val fd) / 10 ^ length fd)
                      * (if eneg then 1 / 10 ^ digits_val ed else 10 ^ digits_val ed))), r3))"

text \<open>
  Values, array items and object members. The first argument bounds the number of nested
  and repeated steps; \<open>json_loads\<close> starts with more than the input has characters, and
  every step consumes one.
\<close>

fun json_value :: "nat \<Rightarrow> string \<Rightarrow> error + (pyval \<times> string)"
  and json_items :: "nat \<Rightarrow> string \<Rightarrow> pyval list \<Rightarrow> error + (pyval \<times> string)"
  and json_members ::
    "nat \<Rightarrow> string \<Rightarrow> (string \<times> pyval) list \<Rightarrow> error + (pyval \<times> string)"
where
  "json_value 0 s = Inl JSONDecodeError"
| "json_value (Suc n) s =
     (case s of
        [] \<Rightarrow> Inl JSONDecodeError
      | c # r \<Rightarrow>
          if c = CHR 0x22 then
            (case json_string r [] of
               None \<Rightarrow> Inl JSONDecodeError
             | Some (str, r') \<Rightarrow> Inr (PStr str, r'))
          else if c = CHR ''{'' then
            (if take 1 (skip_ws r) = ''}'' then Inr (PDict [], drop 1 (skip_ws r))
             else json_members n (skip_ws r) [])
          else if c = CHR ''['' then
            (if take 1 (skip_ws r) = '']'' then Inr (PList [], drop 1 (skip_ws r))
             else json_items n (skip_ws r) [])
          else if take 4 s = ''null'' then Inr (PNone, drop 4 s)
          else if take 4 s = ''true'' then Inr (PBool True, drop 4 s)
          else if take 5 s = ''false'' then Inr (PBool False, drop 5 s)
          else if take 3 s = ''NaN'' then Inr (PFloat NaN, drop 3 s)
          else if take 8 s = ''Infinity'' then Inr (PFloat PosInf, drop 8 s)
          else if take 9 s = ''-Infinity'' then Inr (PFloat NegInf, drop 9 s)
          else json_number s)"
| "json_items 0 s acc = Inl JSONDecodeError"
| "json_items (Suc n) s acc =
     (case json_value n s of
        Inl e \<Rightarrow> Inl e
      | Inr (v, r) \<Rightarrow>
          if take 1 (skip_ws r) = '']'' then Inr (PList (acc @ [v]), drop 1 (skip_ws r))
          else if take 1 (skip_ws r) = '','' then
            json_items n (skip_ws (drop 1 (skip_ws r))) (acc @ [v])
          else Inl JSONDecodeError)"
| "json_members 0 s acc = Inl JSONDecodeError"
| "json_members (Suc n) s acc =
     (if take 1 s \<noteq> [CHR 0x22] then Inl JSONDecodeError
      else
        (case json_string (drop 1 s) [] of
           None \<Rightarrow> Inl JSONDecodeError
         | Some (k, r1) \<Rightarrow>
             if take 1 (skip_ws r1) \<noteq> '':'' then Inl JSONDecodeError
             else
               (case json_value n (skip_ws (drop 1 (skip_ws r1))) of
                  Inl e \<Rightarrow> Inl e
                | Inr (v, r2) \<Rightarrow>
                    if take 1 (skip_ws r2) = ''}'' then
                      Inr (PDict (dict_set acc k v), drop 1 (skip_ws r2))
                    else if take 1 (skip_ws r2) = '','' then
                      json_members n (skip_ws (drop 1 (skip_ws r2))) (dict_set acc k v)
                    else Inl JSONDecodeError)))"

definition json_loads :: "string \<Rightarrow> error + pyval" where
  "json_loads s =
     (case json_value (Suc (length s)) (skip_ws s) of
        Inl e \<Rightarrow> Inl e
      | Inr (v, r) \<Rightarrow> if skip_ws r = [] then Inr v else Inl JSONDecodeError)"

subsection \<open>The response parser\<close>

text \<open>
  \<^verbatim>\<open>
  def parse_ai_json(ai_text: str):
      if not ai_text:
          return {"error": "Empty AI response"}
      cleaned = re.sub(r"```json|```", "", ai_text).strip()
      try:
          return json.loads(cleaned)
      except json.JSONDecodeError:
          return {"error": "Invalid JSON returned by AI", "raw_response": ai_text}
  \<close>
  The annotation is not enforced: the caller passes whatever the completion client
  returned. \<^verbatim>\<open>re.sub\<close> raises \<^verbatim>\<open>TypeError\<close> on anything but a string, and only
  \<^verbatim>\<open>JSONDecodeError\<close> is caught: any other exception of the decoder leaves the parser.
\<close>

definition parse_ai_json :: "(string \<Rightarrow> error + pyval) \<Rightarrow> pyval \<Rightarrow> error + pyval" where
  "parse_ai_json loads ai_text =
     (if \<not> truthy ai_text then Inr (PDict [(''error'', PStr ''Empty AI response'')])
      else case ai_text of
        PStr s \<Rightarrow>
          (case loads (py_strip (remove_fences s)) of
             Inr v \<Rightarrow> Inr v
           | Inl JSONDecodeError \<Rightarrow>
               Inr (PDict [(''error'', PStr ''Invalid JSON returned by AI''),
                           (''raw_response'', ai_text)])
           | Inl e \<Rightarrow> Inl e)
      | _ \<Rightarrow> Inl TypeError)"

text \<open>The spec's word for what the parser returns: a mapping.\<close>

fun is_mapping :: "pyval \<Rightarrow> bool" where
  "is_mapping (PDict kvs) = True"
| "is_mapping v = False"

subsection \<open>The providers\<close>

text \<open>
  What \<^verbatim>\<open>requests.post\<close> returns: the status, the raw body (\<^verbatim>\<open>res.text\<close>) and the
  outcome of \<^verbatim>\<open>res.json()\<close>, which raises when the body is not JSON.
\<close>

record response =
  status_code :: int
  body_text :: string
  body_json :: "error + pyval"

text \<open>
  A provider is any function from the state of the outside world, the endpoint and the
  text submitted to a response and the next state: two calls with the same text may be
  answered differently. The headers, the model name and the fixed instruction template
  around the context are constants of the request and are folded into the provider.
\<close>

type_synonym 'w provider = "'w \<Rightarrow> string \<Rightarrow> string \<Rightarrow> response \<times> 'w"

definition EMBEDDINGS_URL :: string where
  "EMBEDDINGS_URL = ''https://openrouter.ai/api/v1/embeddings''"

definition COMPLETIONS_URL :: string where
  "COMPLETIONS_URL = ''https://openrouter.ai/api/v1/chat/completions''"

subsection \<open>Embeddings\<close>

text \<open>\<^verbatim>\<open>res.json()["data"][0]["embedding"]\<close>.\<close>

definition embedding_of :: "response \<Rightarrow> error + pyval" where
  "embedding_of res =
     and_then (body_json res) (\<lambda>j.
     and_then (item_str j ''data'') (\<lambda>d.
     and_then (item_int d 0) (\<lambda>x.
     item_str x ''embedding'')))"

text \<open>The dict \<^verbatim>\<open>{"text": chunk, "embedding": ...}\<close>.\<close>

record embedded_chunk =
  etext :: string
  embedding :: pyval

text \<open>
  \<^verbatim>\<open>
  def embed_chunks(chunks):
      embeddings = []
      for chunk in chunks:
          res = requests.post(".../embeddings", headers=headers, json=payload, timeout=30)
          if res.status_code != 200:
              raise RuntimeError("Embedding generation failed")
          embeddings.append({"text": chunk,
                             "embedding": res.json()["data"][0]["embedding"]})
      return embeddings
  \<close>
  \<open>embed_loop\<close> is the \<^verbatim>\<open>for\<close> loop over the chunks still to embed.
\<close>

fun embed_loop ::
  "'w provider \<Rightarrow> 'w \<Rightarrow> string list \<Rightarrow> embedded_chunk list \<Rightarrow>
   (error + embedded_chunk list) \<times> 'w" where
  "embed_loop post w [] embeddings = (Inr embeddings, w)"
| "embed_loop post w (chunk # rest) embeddings =
     (case post w EMBEDDINGS_URL chunk of
        (res, w') \<Rightarrow>
          if status_code res \<noteq> 200 then (Inl (RuntimeError ''Embedding generation failed''), w')
          else
            (case embedding_of res of
               Inl e \<Rightarrow> (Inl e, w')
             | Inr v \<Rightarrow>
                 embed_loop post w' rest (embeddings @ [\<lparr>etext = chunk, embedding = v\<rparr>])))"

definition embed_chunks ::
  "'w provider \<Rightarrow> 'w \<Rightarrow> string list \<Rightarrow> (error + embedded_chunk list) \<times> 'w" where
  "embed_chunks post w chunks = embed_loop post w chunks []"

subsection \<open>The vector store\<close>

text \<open>
  \<^verbatim>\<open>numpy\<close> and \<^verbatim>\<open>faiss\<close> are libraries that compute in single precision. What a row
  holds and which distances come out depends on rounding, on overflow and on the order of
  the additions, none of which the program decides. The program is therefore modelled over
  the two operations it relies on:
  \<^item> \<open>float32 lib v\<close> is the single-precision item that \<^verbatim>\<open>np.array(..., dtype="float32")\<close>
    makes of the item \<open>v\<close> of a row, or \<open>None\<close> when the conversion raises;
  \<^item> \<open>l2_distance lib u q\<close> is the squared distance that \<^verbatim>\<open>index.search\<close> computes between
    the stored row \<open>u\<close> and the query row \<open>q\<close> when it is a number below the largest
    single-precision number, and \<open>None\<close> otherwise (too large, infinite or NaN).
\<close>

record 'f numeric =
  float32 :: "pyval \<Rightarrow> 'f option"
  l2_distance :: "'f list \<Rightarrow> 'f list \<Rightarrow> real option"

text \<open>
  \<open>np_row\<close> is the conversion of one embedding to a row: a list, item by item. An item
  that is itself a list or a dict never gives a row the index accepts (a list adds a
  dimension to the array, a dict is no number). \<open>np_array\<close> is
  \<^verbatim>\<open>np.array(rows, dtype="float32")\<close> as the index needs it: rows of one length.
\<close>

fun np_items :: "'f numeric \<Rightarrow> pyval list \<Rightarrow> error + 'f list" where
  "np_items lib [] = Inr []"
| "np_items lib (PList xs # vs) = Inl LibraryError"
| "np_items lib (PDict kvs # vs) = Inl LibraryError"
| "np_items lib (v # vs) =
     (case float32 lib v of
        None \<Rightarrow> Inl LibraryError
      | Some x \<Rightarrow> (case np_items lib vs of Inl e \<Rightarrow> Inl e | Inr xs \<Rightarrow> Inr (x # xs)))"

definition np_row :: "'f numeric \<Rightarrow> pyval \<Rightarrow> error + 'f list" where
  "np_row lib v = (case v of PList xs \<Rightarrow> np_items lib xs | _ \<Rightarrow> Inl LibraryError)"

fun np_rows :: "'f numeric \<Rightarrow> pyval list \<Rightarrow> error + 'f list list" where
  "np_rows lib [] = Inr []"
| "np_rows lib (v # vs) =
     (case np_row lib v of
        Inl e \<Rightarrow> Inl e
      | Inr x \<Rightarrow> (case np_rows lib vs of Inl e \<Rightarrow> Inl e | Inr xs \<Rightarrow> Inr (x # xs)))"

definition np_array :: "'f numeric \<Rightarrow> pyval list \<Rightarrow> error + 'f list list" where
  "np_array lib vs =
     (case np_rows lib vs of
        Inl e \<Rightarrow> Inl e
      | Inr rows \<Rightarrow>
          if list_all (\<lambda>r. length r = length (hd rows)) rows then Inr rows
          else Inl LibraryError)"

text \<open>\<^verbatim>\<open>faiss.IndexFlatL2\<close>: the dimension and the stored vectors, in insertion order.\<close>

record 'f flat_index =
  dim :: nat
  vectors :: "'f list list"

text \<open>
  \<^verbatim>\<open>
  def build_vector_store(embedded_chunks):
      dim = len(embedded_chunks[0]["embedding"])
      index = faiss.IndexFlatL2(dim)
      vectors = np.array([e["embedding"] for e in embedded_chunks], dtype="float32")
      index.add(vectors)
      texts = [e["text"] for e in embedded_chunks]
      return index, texts
  \<close>
  \<^verbatim>\<open>index.add\<close> asserts that the rows have the dimension of the index.
\<close>

definition build_vector_store ::
  "'f numeric \<Rightarrow> embedded_chunk list \<Rightarrow> error + ('f flat_index \<times> string list)" where
  "build_vector_store lib embedded_chunks =
     and_then (py_index embedded_chunks 0) (\<lambda>first.
     and_then (py_len (embedding first)) (\<lambda>d.
     and_then (np_array lib (map embedding embedded_chunks)) (\<lambda>rows.
     if list_all (\<lambda>r. length r = d) rows
     then Inr (\<lparr>dim = d, vectors = rows\<rparr>, map etext embedded_chunks)
     else Inl LibraryError)))"

text \<open>
  \<^verbatim>\<open>index.search(query_vector, top_k)\<close> for one query row. The search keeps the \<open>top_k\<close>
  nearest of the vectors whose distance is below the largest single-precision number;
  \<open>ranked\<close> are these vectors, as pairs of distance and label. The labels come out by
  ascending distance (equal distances in insertion order), and every slot for which no
  vector is left holds the label \<open>-1\<close>. The call asserts the dimension of the query and
  \<open>top_k > 0\<close>.
\<close>

definition ranked :: "'f numeric \<Rightarrow> 'f flat_index \<Rightarrow> 'f list \<Rightarrow> (real \<times> nat) list" where
  "ranked lib index q =
     List.map_filter (\<lambda>i. map_option (\<lambda>d. (d, i)) (l2_distance lib (vectors index ! i) q))
       [0..<length (vectors index)]"

definition faiss_search ::
  "'f numeric \<Rightarrow> 'f flat_index \<Rightarrow> 'f list \<Rightarrow> int \<Rightarrow> error + int list" where
  "faiss_search lib index q top_k =
     (if length q \<noteq> dim index then Inl LibraryError
      else if top_k \<le> 0 then Inl LibraryError
      else
        let nearest = map snd (sort_key fst (ranked lib index q))
        in Inr (map int (take (nat top_k) nearest)
                @ replicate (nat top_k - length nearest) (- 1)))"

text \<open>
  \<^verbatim>\<open>
  def semantic_search(index, texts, query, top_k=3):
      res = requests.post(".../embeddings", headers=headers, json=payload, timeout=30)
      if res.status_code != 200:
          raise RuntimeError("Query embedding failed")
      query_embedding = res.json()["data"][0]["embedding"]
      query_vector = np.array([query_embedding], dtype="float32")
      _, indices = index.search(query_vector, top_k)
      return [texts[i] for i in indices[0]]
  \<close>
\<close>

definition semantic_search ::
  "'f numeric \<Rightarrow> 'w provider \<Rightarrow> 'w \<Rightarrow> 'f flat_index \<Rightarrow> string list \<Rightarrow> string \<Rightarrow> int \<Rightarrow>
   (error + string list) \<times> 'w" where
  "semantic_search lib post w index texts query top_k =
     (case post w EMBEDDINGS_URL query of
        (res, w') \<Rightarrow>
          if status_code res \<noteq> 200 then (Inl (RuntimeError ''Query embedding failed''), w')
          else
            (and_then (embedding_of res) (\<lambda>query_embedding.
             and_then (np_row lib query_embedding) (\<lambda>query_vector.
             and_then (faiss_search lib index query_vector top_k) (\<lambda>indices.
             py_index_all texts indices))), w'))"

subsection \<open>The completion client\<close>

text \<open>
  \<^verbatim>\<open>
  def analyze_document_with_ai(context: str):
      res = requests.post(".../chat/completions", headers=headers, json=payload, timeout=60)
      if res.status_code != 200:
          return {"error": "AI analysis unavailable",
                  "status_code": res.status_code,
                  "response": res.text}
      try:
          return res.json()["choices"][0]["message"]["content"]
      except Exception:
          return {"error": "AI analysis failed"}
  \<close>
\<close>

definition content_of :: "response \<Rightarrow> error + pyval" where
  "content_of res =
     and_then (body_json res) (\<lambda>j.
     and_then (item_str j ''choices'') (\<lambda>cs.
     and_then (item_int cs 0) (\<lambda>c.
     and_then (item_str c ''message'') (\<lambda>m.
     item_str m ''content''))))"

definition analyze_document_with_ai ::
  "'w provider \<Rightarrow> 'w \<Rightarrow> string \<Rightarrow> (error + pyval) \<times> 'w" where
  "analyze_document_with_ai post w context =
     (case post w COMPLETIONS_URL context of
        (res, w') \<Rightarrow>
          if status_code res \<noteq> 200 then
            (Inr (PDict [(''error'', PStr ''AI analysis unavailable''),
                         (''status_code'', PInt (status_code res)),
                         (''response'', PStr (body_text res))]), w')
          else
            (case content_of res of
               Inr content \<Rightarrow> (Inr content, w')
             | Inl e \<Rightarrow> (Inr (PDict [(''error'', PStr ''AI analysis failed'')]), w')))"

subsection \<open>The endpoint\<close>

datatype status = CLEAR | NEEDS_ATTENTION

record issues =
  missing_fields :: pyval
  invalid_fields :: pyval
  risks :: pyval

record report =
  document_type :: pyval
  status :: status
  issues :: issues
  message :: pyval

text \<open>
  The end of \<^verbatim>\<open>validate_document\<close>, from the parsed completion to the report:
  \<^verbatim>\<open>
      missing = ai_parsed.get("missing_fields", [])
      risks = ai_parsed.get("risks", [])
      invalid = []
      status = "CLEAR"
      if missing or invalid or risks:
          status = "NEEDS_ATTENTION"
      return {"document_type": ai_parsed.get("document_type", "Unknown"),
              "status": status,
              "issues": {"missing_fields": missing, "invalid_fields": invalid, "risks": risks},
              "message": ai_parsed.get("summary", "Document analysis completed.")}
  \<close>
\<close>

definition aggregate :: "pyval \<Rightarrow> error + report" where
  "aggregate ai_parsed =
     and_then (py_get ai_parsed ''missing_fields'' (PList [])) (\<lambda>missing.
     and_then (py_get ai_parsed ''risks'' (PList [])) (\<lambda>risks.
     let invalid = PList [] in
     and_then (py_get ai_parsed ''document_type'' (PStr ''Unknown'')) (\<lambda>doc_type.
     and_then (py_get ai_parsed ''summary'' (PStr ''Document analysis completed.'')) (\<lambda>msg.
     Inr \<lparr>document_type = doc_type,
          status = (if truthy missing \<or> truthy invalid \<or> truthy risks
                    then NEEDS_ATTENTION else CLEAR),
          issues = \<lparr>missing_fields = missing, invalid_fields = invalid, risks = risks\<rparr>,
          message = msg\<rparr>))))"

text \<open>The spec's word for an issue sequence that has an entry.\<close>

fun non_empty :: "pyval \<Rightarrow> bool" where
  "non_empty (PList xs) = (xs \<noteq> [])"
| "non_empty v = False"

fun is_sequence :: "pyval \<Rightarrow> bool" where
  "is_sequence (PList xs) = True"
| "is_sequence v = False"

text \<open>
  The retrieval steps of \<^verbatim>\<open>validate_document\<close>:
  \<^verbatim>\<open>
      chunks = chunk_text(text)
      embedded_chunks = embed_chunks(chunks)
      index, texts = build_vector_store(embedded_chunks)
      relevant_chunks = semantic_search(index, texts,
          query="Australian Business Number ABN document date compliance", top_k=3)
      MAX_CONTEXT_CHARS = 2500
      context = "\n".join(relevant_chunks)
      context = context[:MAX_CONTEXT_CHARS]
  \<close>
  \<open>retrieve_chunks\<close> runs them up to the search, for chunks already cut; \<open>assemble_context\<close>
  is the last two lines.
\<close>

definition QUERY :: string where
  "QUERY = ''Australian Business Number ABN document date compliance''"

definition MAX_CONTEXT_CHARS :: int where
  "MAX_CONTEXT_CHARS = 2500"

definition retrieve_chunks ::
  "'f numeric \<Rightarrow> 'w provider \<Rightarrow> 'w \<Rightarrow> string list \<Rightarrow> (error + string list) \<times> 'w" where
  "retrieve_chunks lib post w chunks =
     (case embed_chunks post w chunks of
        (Inl e, w1) \<Rightarrow> (Inl e, w1)
      | (Inr embedded_chunks, w1) \<Rightarrow>
          (case build_vector_store lib embedded_chunks of
             Inl e \<Rightarrow> (Inl e, w1)
           | Inr (index, texts) \<Rightarrow> semantic_search lib post w1 index texts QUERY 3))"

text \<open>
  Whether, in the retrieval of these chunks, the search had a distance below the largest
  single-precision number for every stored vector: the same steps, up to the query row.
\<close>

definition all_ranked :: "'f numeric \<Rightarrow> 'w provider \<Rightarrow> 'w \<Rightarrow> string list \<Rightarrow> bool" where
  "all_ranked lib post w chunks =
     (case embed_chunks post w chunks of
        (Inl e, w1) \<Rightarrow> False
      | (Inr embedded_chunks, w1) \<Rightarrow>
          (case build_vector_store lib embedded_chunks of
             Inl e \<Rightarrow> False
           | Inr (index, texts) \<Rightarrow>
               (case and_then (embedding_of (fst (post w1 EMBEDDINGS_URL QUERY))) (np_row lib) of
                  Inl e \<Rightarrow> False
                | Inr query_vector \<Rightarrow>
                    list_all (\<lambda>v. l2_distance lib v query_vector \<noteq> None) (vectors index))))"

definition assemble_context :: "string list \<Rightarrow> string" where
  "assemble_context relevant_chunks =
     py_slice (py_join [CHR 0x0A] relevant_chunks) 0 MAX_CONTEXT_CHARS"

text \<open>
  The whole endpoint, from the extracted text on (the extraction of text from the
  uploaded file is a collaborator). \<open>None\<close>: the chunking loop does not return.
  \<^verbatim>\<open>
      if not text.strip():
          raise HTTPException(status_code=400, detail="No text extracted from document")
      ...
      ai_raw = analyze_document_with_ai(context)
      ai_parsed = parse_ai_json(ai_raw)
      ...
  \<close>
\<close>

definition validate_document ::
  "(string \<Rightarrow> error + pyval) \<Rightarrow> 'f numeric \<Rightarrow> 'w provider \<Rightarrow> 'w \<Rightarrow> string \<Rightarrow>
   ((error + report) \<times> 'w) option" where
  "validate_document loads lib post w text =
     (if py_strip text = [] then
        Some (Inl (HTTPException 400 ''No text extracted from document''), w)
      else
        (case chunk_text text 800 100 of
           None \<Rightarrow> None
         | Some chunks \<Rightarrow>
             Some (case retrieve_chunks lib post w chunks of
                     (Inl e, w2) \<Rightarrow> (Inl e, w2)
                   | (Inr relevant_chunks, w2) \<Rightarrow>
                       (case analyze_document_with_ai post w2 (assemble_context relevant_chunks) of
                          (ai_raw, w3) \<Rightarrow>
                            (and_then ai_raw (\<lambda>raw.
                             and_then (parse_ai_json loads raw) aggregate), w3)))))"

subsection \<open>Concrete runs\<close>

text \<open>
  For runs on concrete inputs the outside world is the list of the responses still to
  come: each call takes the next one. \<open>http_response\<close> is a response with a given status
  and body, whose \<^verbatim>\<open>json()\<close> decodes that body.
\<close>

definition http_response :: "int \<Rightarrow> string \<Rightarrow> response" where
  "http_response code body =
     \<lparr>status_code = code, body_text = body, body_json = json_loads body\<rparr>"

definition scripted :: "response list provider" where
  "scripted w url input =
     (case w of [] \<Rightarrow> (http_response 503 [], []) | res # rest \<Rightarrow> (res, rest))"

text \<open>The body \<^verbatim>\<open>{"data": [{"embedding": [1, 2]}]}\<close> of a successful embedding call.\<close>

definition EMBEDDING_BODY :: string where
  "EMBEDDING_BODY =
     ''{'' @ [CHR 0x22] @ ''data'' @ [CHR 0x22] @ '': [{'' @ [CHR 0x22] @ ''embedding''
       @ [CHR 0x22] @ '': [1, 2]}]}''"

text \<open>The body \<^verbatim>\<open>{"data": [{"embedding": [3, 2]}]}\<close> of another one.\<close>

definition EMBEDDING_BODY_2 :: string where
  "EMBEDDING_BODY_2 =
     ''{'' @ [CHR 0x22] @ ''data'' @ [CHR 0x22] @ '': [{'' @ [CHR 0x22] @ ''embedding''
       @ [CHR 0x22] @ '': [3, 2]}]}''"

text \<open>
  A reference for the numeric libraries, used where a statement needs numbers that run.
  Items are JSON numbers, booleans and \<^verbatim>\<open>null\<close> (which numpy makes NaN); a number beyond
  the single-precision range is an infinity; a distance is ranked when all items are
  numbers and the sum of the squared differences is below the largest single-precision
  number. Rounding is not part of it: it is the library on numbers that single precision
  holds and adds exactly, such as 1, 2 and 3, and is used on such numbers only. (numpy
  also converts numeric strings; they raise here.)
\<close>

definition to_float32 :: "real \<Rightarrow> pyfloat" where
  "to_float32 x =
     (if 2 ^ 128 - 2 ^ 103 \<le> x then PosInf
      else if x \<le> - (2 ^ 128 - 2 ^ 103) then NegInf
      else if \<bar>x\<bar> \<le> 1 / 2 ^ 150 then Num 0
      else Num x)"

definition exact_float32 :: "pyval \<Rightarrow> pyfloat option" where
  "exact_float32 v =
     (case v of
        PInt i \<Rightarrow> if \<bar>i\<bar> < 2 ^ 1024 then Some (to_float32 (real_of_int i)) else None
      | PFloat (Num r) \<Rightarrow> Some (to_float32 r)
      | PFloat f \<Rightarrow> Some f
      | PBool b \<Rightarrow> Some (Num (if b then 1 else 0))
      | PNone \<Rightarrow> Some NaN
      | _ \<Rightarrow> None)"

fun the_numbers :: "pyfloat list \<Rightarrow> real list option" where
  "the_numbers [] = Some []"
| "the_numbers (Num x # fs) = map_option ((#) x) (the_numbers fs)"
| "the_numbers (f # fs) = None"

definition l2sq :: "real list \<Rightarrow> real list \<Rightarrow> real" where
  "l2sq u v = sum_list (map (\<lambda>(x, y). (x - y) ^ 2) (zip u v))"

definition exact_l2 :: "pyfloat list \<Rightarrow> pyfloat list \<Rightarrow> real option" where
  "exact_l2 u q =
     (case (the_numbers u, the_numbers q) of
        (Some xs, Some ys) \<Rightarrow> if l2sq xs ys < 2 ^ 128 - 2 ^ 104 then Some (l2sq xs ys) else None
      | _ \<Rightarrow> None)"

definition exact_numbers :: "pyfloat numeric" where
  "exact_numbers = \<lparr>float32 = exact_float32, l2_distance = exact_l2\<rparr>"

section \<open>Properties of chunking\<close>

lemma py_slice_length: "0 \<le> m \<Longrightarrow> int (length (py_slice xs start (start + m))) \<le> m"
  by (auto simp: py_slice_def Let_def min_def max_def)

lemma window_count_0:
  "0 < chunk_size - overlap \<Longrightarrow> \<not> start < int (length text) \<Longrightarrow>
   window_count text chunk_size overlap start = 0"
proof -
  assume d: "0 < chunk_size - overlap" and s: "\<not> start < int (length text)"
  from s have "0 \<le> start - int (length text)" by simp
  with d have "0 \<le> (start - int (length text)) div (chunk_size - overlap)"
    by (simp add: pos_imp_zdiv_nonneg_iff)
  then show ?thesis by (simp add: window_count_def)
qed

lemma window_count_Suc:
  assumes d: "0 < chunk_size - overlap" and s: "start < int (length text)"
  shows "window_count text chunk_size overlap start =
         Suc (window_count text chunk_size overlap (start + chunk_size - overlap))"
proof -
  let ?d = "chunk_size - overlap"
  let ?x = "start - int (length text)"
  have e: "start + chunk_size - overlap - int (length text) = ?x + ?d" by simp
  have shift: "(start + chunk_size - overlap - int (length text)) div ?d = ?x div ?d + 1"
    unfolding e using d by (intro div_add_self2) simp
  from s have "?x < 0" by simp
  with d have "?x div ?d < 0" by (simp add: pos_imp_zdiv_neg_iff)
  then have "0 \<le> - (?x div ?d + 1)" by simp
  then show ?thesis
    unfolding window_count_def shift by (simp add: nat_add_distrib)
qed

lemma window_shift:
  "window text chunk_size overlap (start + chunk_size - overlap) k =
   window text chunk_size overlap start (Suc k)"
  by (simp add: window_def algebra_simps)

text \<open>
  With a window that advances (\<open>overlap < chunk_size\<close>) the loop returns, and what it
  returns is the accumulated chunks followed by the windows in order.
\<close>

lemma chunk_loop_returns:
  assumes d: "0 < chunk_size - overlap"
  shows "chunk_loop text chunk_size overlap start chunks =
         Some (chunks @ map (window text chunk_size overlap start)
                 [0..<window_count text chunk_size overlap start])"
proof (induction "window_count text chunk_size overlap start" arbitrary: start chunks)
  case 0
  have "\<not> start < int (length text)"
  proof
    assume "start < int (length text)"
    from window_count_Suc [OF d this] "0.hyps" show False by simp
  qed
  then show ?case
    using "0.hyps" [symmetric] by (subst chunk_loop.simps) simp
next
  case (Suc n)
  let ?next = "start + chunk_size - overlap"
  have lt: "start < int (length text)"
  proof (rule ccontr)
    assume "\<not> start < int (length text)"
    from window_count_0 [OF d this] Suc.hyps(2) show False by simp
  qed
  from window_count_Suc [OF d lt] Suc.hyps(2)
  have n: "n = window_count text chunk_size overlap ?next" by simp
  have first: "py_slice text start (start + chunk_size) = window text chunk_size overlap start 0"
    by (simp add: window_def)
  have "map (window text chunk_size overlap start) [0..<Suc n] =
        window text chunk_size overlap start 0 #
        map (window text chunk_size overlap ?next) [0..<n]"
    by (simp only: map_upt_Suc window_shift [symmetric])
  with Suc.hyps(1) [OF n, of "chunks @ [py_slice text start (start + chunk_size)]"] lt first
  show ?case
    using Suc.hyps(2) [symmetric] n by (subst chunk_loop.simps) simp
qed

text \<open>
  With a window that does not advance (\<open>chunk_size \<le> overlap\<close>) and a start inside the
  text, the loop never returns.
\<close>

lemma chunk_loop_no_result:
  assumes ret: "chunk_loop text chunk_size overlap start chunks = Some result"
  shows "\<not> (chunk_size \<le> overlap \<and> start < int (length text))"
proof (rule chunk_loop.raw_induct
    [where P = "\<lambda>t cs ov s acc r. \<not> (cs \<le> ov \<and> s < int (length t))", OF _ ret])
  fix f t cs ov s acc r
  assume IH: "\<And>t cs ov s acc (r :: string list). f t cs ov s acc = Some r \<Longrightarrow>
                \<not> (cs \<le> ov \<and> s < int (length t))"
    and step: "(if s < int (length t)
                then f t cs ov (s + cs - ov) (acc @ [py_slice t s (s + cs)])
                else Some acc) = Some r"
  show "\<not> (cs \<le> ov \<and> s < int (length t))"
  proof
    assume stuck: "cs \<le> ov \<and> s < int (length t)"
    with step have "f t cs ov (s + cs - ov) (acc @ [py_slice t s (s + cs)]) = Some r"
      by simp
    from IH [OF this] stuck show False by simp
  qed
qed

lemma chunk_loop_diverges:
  "chunk_size \<le> overlap \<Longrightarrow> start < int (length text) \<Longrightarrow>
   chunk_loop text chunk_size overlap start chunks = None"
  using chunk_loop_no_result [of "text" chunk_size overlap start chunks]
  by (cases "chunk_loop text chunk_size overlap start chunks") auto

lemma chunk_text_returns:
  "overlap < chunk_size \<Longrightarrow>
   chunk_text text chunk_size overlap =
   Some (map (window text chunk_size overlap 0) [0..<window_count text chunk_size overlap 0])"
proof -
  assume "overlap < chunk_size"
  then have "0 < chunk_size - overlap" by simp
  from chunk_loop_returns [OF this] show ?thesis by (simp add: chunk_text_def)
qed

lemma window_count_ceiling:
  assumes "overlap < chunk_size"
  shows "int (window_count text chunk_size overlap 0) =
         \<lceil>real (length text) / real_of_int (chunk_size - overlap)\<rceil>"
proof -
  have "\<lceil>real (length text) / real_of_int (chunk_size - overlap)\<rceil> =
        - (- int (length text) div (chunk_size - overlap))"
    using ceiling_divide_eq_div [of "int (length text)" "chunk_size - overlap"] by simp
  moreover have "0 \<le> - (- int (length text) div (chunk_size - overlap))"
    using assms div_nonpos_pos_le0 [of "- int (length text)" "chunk_size - overlap"] by simp
  ultimately show ?thesis by (simp add: window_count_def)
qed

lemma window_length: "0 \<le> chunk_size \<Longrightarrow> int (length (window text chunk_size overlap start k)) \<le> chunk_size"
  unfolding window_def by (rule py_slice_length)

lemma hello_length: "length hello_text = 1300"
  by (simp add: hello_text_def length_concat sum_list_replicate)

lemma hello_chunks:
  "chunk_text hello_text 800 100 = Some [take 800 hello_text, drop 700 hello_text]"
proof -
  have "window_count hello_text 800 100 0 = 2"
    by (simp add: window_count_def hello_length)
  moreover have "window hello_text 800 100 0 0 = take 800 hello_text"
    by (simp add: window_def py_slice_def hello_length)
  moreover have "window hello_text 800 100 0 1 = drop 700 hello_text"
    by (simp add: window_def py_slice_def hello_length)
  ultimately show ?thesis
    using chunk_text_returns [of 100 800 hello_text]
    by (simp add: numeral_2_eq_2)
qed

text \<open>
  Claim C4, as the code has it. For every non-empty text and every valid pair
  (\<open>0 < chunk_size\<close>, \<open>0 \<le> overlap < chunk_size\<close>) chunking returns; the number of chunks
  is \<open>\<lceil>len(text) / (chunk_size - overlap)\<rceil>\<close>, one window per start offset below the
  length of the text; and no chunk is longer than \<open>chunk_size\<close>. The overlap is not
  subtracted from the length of the text.
\<close>

theorem chunk_text_valid:
  assumes "text \<noteq> []" and "0 < chunk_size" and "0 \<le> overlap" and "overlap < chunk_size"
  shows "\<exists>chunks. chunk_text text chunk_size overlap = Some chunks
           \<and> int (length chunks) = \<lceil>real (length text) / real_of_int (chunk_size - overlap)\<rceil>
           \<and> list_all (\<lambda>c. int (length c) \<le> chunk_size) chunks"
proof -
  let ?chunks =
    "map (window text chunk_size overlap 0) [0..<window_count text chunk_size overlap 0]"
  have "chunk_text text chunk_size overlap = Some ?chunks"
    using assms(4) by (rule chunk_text_returns)
  moreover have "int (length ?chunks) =
      \<lceil>real (length text) / real_of_int (chunk_size - overlap)\<rceil>"
    using window_count_ceiling [OF assms(4)] by simp
  moreover have "list_all (\<lambda>c. int (length c) \<le> chunk_size) ?chunks"
    using assms(2) by (simp add: list_all_iff window_length)
  ultimately show ?thesis by blast
qed

theorem chunk_text_valid_witness:
  "\<exists>chunks. chunk_text ''abcdefghij'' 5 4 = Some chunks
           \<and> int (length chunks) = \<lceil>real (length ''abcdefghij'') / real_of_int (5 - 4)\<rceil>
           \<and> list_all (\<lambda>c. int (length c) \<le> 5) chunks"
  using chunk_text_valid [of "''abcdefghij''" 5 4] by simp

text \<open>
  The count of the claim fails: ten characters cut with \<open>chunk_size = 5\<close> and
  \<open>overlap = 4\<close> give ten chunks, where \<open>\<lceil>(10 - 4) / (5 - 4)\<rceil>\<close> is six.
\<close>

theorem chunk_count_counterexample:
  "map_option length (chunk_text ''abcdefghij'' 5 4) = Some 10
   \<and> \<lceil>(real (length ''abcdefghij'') - real_of_int 4) / real_of_int (5 - 4)\<rceil> = (6::int)"
  by (simp add: chunk_text_def chunk_loop.simps py_slice_def)

text \<open>
  Claim C2, as the code has it. For every pair with \<open>chunk_size \<le> overlap\<close> chunking
  checks nothing and raises nothing: on the empty text it returns the empty sequence, and
  on every other text the loop does not return.
\<close>

theorem chunk_text_stuck:
  assumes "chunk_size \<le> overlap"
  shows "chunk_text text chunk_size overlap = (if text = [] then Some [] else None)"
proof (cases "text = []")
  case True
  then show ?thesis by (simp add: chunk_text_def chunk_loop.simps)
next
  case False
  then have "0 < int (length text)" by simp
  from chunk_loop_diverges [OF assms this] False show ?thesis
    by (simp add: chunk_text_def)
qed

theorem chunk_text_stuck_witness:
  "chunk_text ''abc'' 2 5 = None \<and> chunk_text [] 2 5 = Some []"
  using chunk_text_stuck [of 2 5 "''abc''"] chunk_text_stuck [of 2 5 "[]"] by simp

text \<open>
  With \<open>chunk_size = overlap = 1\<close> the empty text is chunked without any failure, and the
  text \<^verbatim>\<open>"a"\<close> is never chunked at all.
\<close>

theorem chunk_text_no_failure_counterexample:
  "chunk_text [] 1 1 = Some [] \<and> chunk_text ''a'' 1 1 = None"
proof
  show "chunk_text [] 1 1 = Some []" by (simp add: chunk_text_def chunk_loop.simps)
  have "(0::int) < int (length ''a'')" by simp
  from chunk_loop_diverges [of 1 1 0 "''a''" "[]", OF _ this]
  show "chunk_text ''a'' 1 1 = None" by (simp add: chunk_text_def)
qed

lemma embedding_body_json:
  "json_loads EMBEDDING_BODY =
     Inr (PDict [(''data'', PList [PDict [(''embedding'', PList [PInt 1, PInt 2])]])])"
  by code_simp

lemma embedding_of_sample:
  "embedding_of (http_response 200 EMBEDDING_BODY) = Inr (PList [PInt 1, PInt 2])"
  by (simp add: embedding_of_def http_response_def embedding_body_json and_then_def
      item_str_def item_int_def py_index_def)

section \<open>Properties of the response parser\<close>

text \<open>
  Claim C9. The parser has a branch of its own for falsy input: for the empty string, and
  for any other falsy value, it returns exactly \<^verbatim>\<open>{"error": "Empty AI response"}\<close>, a
  mapping with no \<^verbatim>\<open>raw_response\<close> key, different from the fallback mapping of a failed
  parse whatever the raw text.
\<close>

theorem parse_ai_json_falsy:
  assumes "\<not> truthy ai_text"
  shows "parse_ai_json loads ai_text = Inr (PDict [(''error'', PStr ''Empty AI response'')])
         \<and> map_of [(''error'', PStr ''Empty AI response'')] ''raw_response'' = None
         \<and> PDict [(''error'', PStr ''Empty AI response'')]
             \<noteq> PDict [(''error'', PStr ''Invalid JSON returned by AI''), (''raw_response'', raw)]"
  using assms by (simp add: parse_ai_json_def)

theorem parse_ai_json_falsy_witness:
  "parse_ai_json json_loads (PStr []) = Inr (PDict [(''error'', PStr ''Empty AI response'')])
   \<and> parse_ai_json json_loads PNone = Inr (PDict [(''error'', PStr ''Empty AI response'')])"
  using parse_ai_json_falsy [of "PStr []" json_loads] parse_ai_json_falsy [of PNone json_loads]
  by simp

text \<open>
  Claim C6, as the code has it. On every string the parser does one of three things by
  design: for the empty string it returns the empty-response mapping; when the cleaned
  text decodes, it returns the decoded value as it is, mapping or not; and when strict
  JSON parsing fails (\<^verbatim>\<open>JSONDecodeError\<close>) it returns exactly the fallback mapping with
  the original input. What happens when the decoder raises something else is left open
  here (see \<open>long_integer_raises\<close> below).
\<close>

theorem parse_ai_json_string:
  "(s = [] \<longrightarrow>
      parse_ai_json loads (PStr s) = Inr (PDict [(''error'', PStr ''Empty AI response'')]))
   \<and> (s \<noteq> [] \<and> loads (py_strip (remove_fences s)) = Inr v \<longrightarrow>
        parse_ai_json loads (PStr s) = Inr v)
   \<and> (s \<noteq> [] \<and> loads (py_strip (remove_fences s)) = Inl JSONDecodeError \<longrightarrow>
        parse_ai_json loads (PStr s) =
          Inr (PDict [(''error'', PStr ''Invalid JSON returned by AI''),
                      (''raw_response'', PStr s)]))"
  by (simp add: parse_ai_json_def)

lemma clean_not_json: "py_strip (remove_fences '' not json '') = ''not json''"
  by (simp add: py_strip_def py_isspace_def)

lemma loads_not_json: "json_loads ''not json'' = Inl JSONDecodeError"
  by code_simp

lemma clean_fenced: "py_strip (remove_fences (''```json'' @ [CHR 0x0A] @ ''{}'' @ [CHR 0x0A] @ ''```'')) = ''{}''"
  by (simp add: py_strip_def py_isspace_def)

lemma empty_object_json: "json_loads ''{}'' = Inr (PDict [])"
  by code_simp

theorem parse_ai_json_string_witness:
  "parse_ai_json json_loads (PStr []) = Inr (PDict [(''error'', PStr ''Empty AI response'')])
   \<and> parse_ai_json json_loads (PStr (''```json'' @ [CHR 0x0A] @ ''{}'' @ [CHR 0x0A] @ ''```'')) =
       Inr (PDict [])
   \<and> parse_ai_json json_loads (PStr '' not json '') =
       Inr (PDict [(''error'', PStr ''Invalid JSON returned by AI''),
                   (''raw_response'', PStr '' not json '')])"
proof (intro conjI)
  show "parse_ai_json json_loads (PStr []) =
          Inr (PDict [(''error'', PStr ''Empty AI response'')])"
    using parse_ai_json_string [of "[]" json_loads] by simp
  have "json_loads (py_strip (remove_fences
          (''```json'' @ [CHR 0x0A] @ ''{}'' @ [CHR 0x0A] @ ''```''))) = Inr (PDict [])"
    unfolding clean_fenced by (rule empty_object_json)
  then show "parse_ai_json json_loads
          (PStr (''```json'' @ [CHR 0x0A] @ ''{}'' @ [CHR 0x0A] @ ''```'')) = Inr (PDict [])"
    using parse_ai_json_string
      [of "''```json'' @ [CHR 0x0A] @ ''{}'' @ [CHR 0x0A] @ ''```''" json_loads "PDict []"]
    by (simp del: remove_fences.simps)
  have "json_loads (py_strip (remove_fences '' not json '')) = Inl JSONDecodeError"
    unfolding clean_not_json by (rule loads_not_json)
  then show "parse_ai_json json_loads (PStr '' not json '') =
       Inr (PDict [(''error'', PStr ''Invalid JSON returned by AI''),
                   (''raw_response'', PStr '' not json '')])"
    using parse_ai_json_string [of "'' not json ''" json_loads]
    by (simp del: remove_fences.simps)
qed

lemma clean_list: "py_strip (remove_fences ''[]'') = ''[]''"
  by (simp add: py_strip_def py_isspace_def)

lemma loads_list: "json_loads ''[]'' = Inr (PList [])"
  by code_simp

text \<open>The completion \<^verbatim>\<open>[]\<close> is valid JSON, and the parser returns a list for it.\<close>

theorem parse_ai_json_mapping_counterexample:
  "parse_ai_json json_loads (PStr ''[]'') = Inr (PList []) \<and> \<not> is_mapping (PList [])"
proof -
  have "parse_ai_json json_loads (PStr ''[]'') =
        (case json_loads (py_strip (remove_fences ''[]'')) of
           Inr v \<Rightarrow> Inr v
         | Inl JSONDecodeError \<Rightarrow>
             Inr (PDict [(''error'', PStr ''Invalid JSON returned by AI''),
                         (''raw_response'', PStr ''[]'')])
         | Inl e \<Rightarrow> Inl e)"
    by (simp add: parse_ai_json_def del: remove_fences.simps)
  then show ?thesis unfolding clean_list loads_list by simp
qed

text \<open>
  The decoder raises \<^verbatim>\<open>ValueError\<close> on an integer of more than 4300 digits, and the
  parser, which catches \<^verbatim>\<open>JSONDecodeError\<close> only, raises it too.
\<close>

lemma digits_fences: "remove_fences (replicate n (CHR ''1'')) = replicate n (CHR ''1'')"
  by (induction n) simp_all

lemma digits_strip: "py_strip (replicate n (CHR ''1'')) = replicate n (CHR ''1'')"
  by (simp add: py_strip_def py_isspace_def)

lemma digits_number:
  "4300 < n \<Longrightarrow> json_number (replicate n (CHR ''1'')) = Inl ValueError"
  by (cases n) (simp_all add: json_number_def Let_def is_digit_def)

lemma digits_loads: "4300 < n \<Longrightarrow> json_loads (replicate n (CHR ''1'')) = Inl ValueError"
proof -
  assume n: "4300 < n"
  then obtain m where m: "n = Suc m" by (cases n) auto
  have "skip_ws (replicate n (CHR ''1'')) = replicate n (CHR ''1'')"
    by (simp add: skip_ws_def json_ws_def)
  moreover have "json_value (Suc n) (replicate n (CHR ''1'')) =
      json_number (replicate n (CHR ''1''))"
    unfolding m by simp
  ultimately show ?thesis using digits_number [OF n] by (simp add: json_loads_def)
qed

lemma long_integer_raises:
  "4300 < n \<Longrightarrow> parse_ai_json json_loads (PStr (replicate n (CHR ''1''))) = Inl ValueError"
  by (simp add: parse_ai_json_def digits_fences digits_strip digits_loads)

section \<open>Properties of the report\<close>

text \<open>
  Claim C7. For every parsed mapping (whose \<^verbatim>\<open>missing_fields\<close> and \<^verbatim>\<open>risks\<close> entries,
  where present, are sequences) the report is built; its three issue sequences are the
  mapping's \<^verbatim>\<open>missing_fields\<close> and \<^verbatim>\<open>risks\<close>, empty when absent, and the invalid fields,
  which are always empty; the status is \<open>NEEDS_ATTENTION\<close> if and only if one of the
  three is non-empty, and \<open>CLEAR\<close> otherwise; the document type and the message default to
  \<^verbatim>\<open>"Unknown"\<close> and \<^verbatim>\<open>"Document analysis completed."\<close> when their keys are absent. The
  empty mapping gives \<open>CLEAR\<close>, \<^verbatim>\<open>"Unknown"\<close> and three empty sequences.
\<close>

theorem aggregate_report:
  assumes "\<And>v. map_of parsed ''missing_fields'' = Some v \<Longrightarrow> is_sequence v"
    and "\<And>v. map_of parsed ''risks'' = Some v \<Longrightarrow> is_sequence v"
  shows "(\<exists>r. aggregate (PDict parsed) = Inr r
           \<and> missing_fields (issues r) =
               (case map_of parsed ''missing_fields'' of None \<Rightarrow> PList [] | Some v \<Rightarrow> v)
           \<and> invalid_fields (issues r) = PList []
           \<and> risks (issues r) =
               (case map_of parsed ''risks'' of None \<Rightarrow> PList [] | Some v \<Rightarrow> v)
           \<and> (status r = NEEDS_ATTENTION \<longleftrightarrow>
                non_empty (missing_fields (issues r)) \<or> non_empty (invalid_fields (issues r))
                \<or> non_empty (risks (issues r)))
           \<and> (status r = CLEAR \<longleftrightarrow>
                \<not> (non_empty (missing_fields (issues r)) \<or> non_empty (invalid_fields (issues r))
                \<or> non_empty (risks (issues r))))
           \<and> (map_of parsed ''document_type'' = None \<longrightarrow> document_type r = PStr ''Unknown'')
           \<and> (map_of parsed ''summary'' = None \<longrightarrow>
                message r = PStr ''Document analysis completed.''))
         \<and> aggregate (PDict []) =
             Inr \<lparr>document_type = PStr ''Unknown'', status = CLEAR,
                  issues = \<lparr>missing_fields = PList [], invalid_fields = PList [],
                            risks = PList []\<rparr>,
                  message = PStr ''Document analysis completed.''\<rparr>"
proof -
  have seq: "is_sequence v \<Longrightarrow> truthy v = non_empty v" for v
    by (cases v) simp_all
  have m: "truthy (case map_of parsed ''missing_fields'' of None \<Rightarrow> PList [] | Some v \<Rightarrow> v) =
           non_empty (case map_of parsed ''missing_fields'' of None \<Rightarrow> PList [] | Some v \<Rightarrow> v)"
    using assms(1) by (auto split: option.splits simp: seq)
  have k: "truthy (case map_of parsed ''risks'' of None \<Rightarrow> PList [] | Some v \<Rightarrow> v) =
           non_empty (case map_of parsed ''risks'' of None \<Rightarrow> PList [] | Some v \<Rightarrow> v)"
    using assms(2) by (auto split: option.splits simp: seq)
  show ?thesis
    by (simp add: aggregate_def py_get_def and_then_def m k)
qed

theorem aggregate_report_witness:
  "(\<exists>r. aggregate (PDict [(''missing_fields'', PList [PStr ''ABN''])]) = Inr r
        \<and> status r = NEEDS_ATTENTION
        \<and> missing_fields (issues r) = PList [PStr ''ABN'']
        \<and> invalid_fields (issues r) = PList []
        \<and> risks (issues r) = PList []
        \<and> document_type r = PStr ''Unknown''
        \<and> message r = PStr ''Document analysis completed.'')"
  using aggregate_report [of "[(''missing_fields'', PList [PStr ''ABN''])]"]
  by auto

section \<open>Properties of the completion client\<close>

text \<open>
  Claim C10. Whatever the provider responds, the completion client returns a value. When
  a response with status 200 lacks the shape \<^verbatim>\<open>choices[0].message.content\<close>, the value
  is \<^verbatim>\<open>{"error": "AI analysis failed"}\<close>, with no status and no raw body: a mapping
  different from the one returned for any other status.
\<close>

theorem analyze_never_raises:
  "\<exists>v. fst (analyze_document_with_ai post w context) = Inr v
       \<and> (status_code (fst (post w COMPLETIONS_URL context)) = 200
            \<and> isl (content_of (fst (post w COMPLETIONS_URL context)))
          \<longrightarrow> v = PDict [(''error'', PStr ''AI analysis failed'')])
       \<and> (status_code (fst (post w COMPLETIONS_URL context)) \<noteq> 200
          \<longrightarrow> v = PDict [(''error'', PStr ''AI analysis unavailable''),
                         (''status_code'', PInt (status_code (fst (post w COMPLETIONS_URL context)))),
                         (''response'', PStr (body_text (fst (post w COMPLETIONS_URL context))))])
       \<and> map_of [(''error'', PStr ''AI analysis failed'')] ''status_code'' = None
       \<and> map_of [(''error'', PStr ''AI analysis failed'')] ''response'' = None
       \<and> PDict [(''error'', PStr ''AI analysis failed'')]
           \<noteq> PDict [(''error'', PStr ''AI analysis unavailable''),
                     (''status_code'', PInt code), (''response'', PStr body)]"
  by (cases "post w COMPLETIONS_URL context")
     (auto simp: analyze_document_with_ai_def split: sum.splits)

theorem analyze_never_raises_witness:
  "fst (analyze_document_with_ai scripted [http_response 200 ''{}''] ''abc'') =
     Inr (PDict [(''error'', PStr ''AI analysis failed'')])"
proof -
  have "content_of (http_response 200 ''{}'') = Inl KeyError"
    by (simp add: content_of_def http_response_def empty_object_json and_then_def item_str_def)
  then show ?thesis
    using analyze_never_raises [of scripted "[http_response 200 ''{}'']" "''abc''"]
    by (auto simp: scripted_def http_response_def)
qed

section \<open>Properties of the embedder\<close>

lemma embed_loop_texts:
  "embed_loop post w chunks acc = (Inr embedded, w') \<Longrightarrow>
   map etext embedded = map etext acc @ chunks"
proof (induction chunks arbitrary: w acc)
  case Nil
  then show ?case by simp
next
  case (Cons chunk rest)
  obtain res w1 where p: "post w EMBEDDINGS_URL chunk = (res, w1)"
    by (cases "post w EMBEDDINGS_URL chunk")
  with Cons.prems obtain v where ok: "status_code res = 200" "embedding_of res = Inr v"
    and rec: "embed_loop post w1 rest (acc @ [\<lparr>etext = chunk, embedding = v\<rparr>]) = (Inr embedded, w')"
    by (auto split: if_splits sum.splits)
  from Cons.IH [OF rec] show ?case by simp
qed

lemma embed_loop_append:
  "embed_loop post w (xs @ ys) acc =
     (case embed_loop post w xs acc of
        (Inl e, w1) \<Rightarrow> (Inl e, w1)
      | (Inr embedded, w1) \<Rightarrow> embed_loop post w1 ys embedded)"
proof (induction xs arbitrary: w acc)
  case Nil
  then show ?case by simp
next
  case (Cons x xs)
  show ?case
    by (cases "post w EMBEDDINGS_URL x") (simp add: Cons.IH split: sum.splits)
qed

text \<open>
  Claim C8, as the code has it. When a batch is embedded, the result has one entry per
  input text, in the order of the texts; and when the texts before some text have been
  embedded and the provider answers the call for that text with a status other than 200,
  the whole batch ends in the error \<^verbatim>\<open>RuntimeError("Embedding generation failed")\<close> and
  the embeddings made so far are not returned. The error is this fixed message: the
  status of the provider is not in it.
\<close>

theorem embed_chunks_all_or_nothing:
  "(fst (embed_chunks post w chunks) = Inr embedded \<longrightarrow>
      map etext embedded = chunks \<and> length embedded = length chunks)
   \<and> (embed_chunks post w before = (Inr partial, w1)
        \<and> status_code (fst (post w1 EMBEDDINGS_URL chunk)) \<noteq> 200 \<longrightarrow>
      fst (embed_chunks post w (before @ chunk # rest)) =
        Inl (RuntimeError ''Embedding generation failed''))"
proof (intro conjI impI)
  assume r: "fst (embed_chunks post w chunks) = Inr embedded"
  then obtain w' where "embed_loop post w chunks [] = (Inr embedded, w')"
    by (cases "embed_loop post w chunks []") (simp add: embed_chunks_def)
  from embed_loop_texts [OF this] show "map etext embedded = chunks" by simp
  then show "length embedded = length chunks" by (metis length_map)
next
  assume a: "embed_chunks post w before = (Inr partial, w1)
        \<and> status_code (fst (post w1 EMBEDDINGS_URL chunk)) \<noteq> 200"
  then show "fst (embed_chunks post w (before @ chunk # rest)) =
        Inl (RuntimeError ''Embedding generation failed'')"
    by (cases "post w1 EMBEDDINGS_URL chunk") (simp add: embed_chunks_def embed_loop_append)
qed

section \<open>Properties of the vector store\<close>

lemma np_rows_length: "np_rows lib vs = Inr rows \<Longrightarrow> length rows = length vs"
  by (induction vs arbitrary: rows) (auto split: sum.splits)

lemma build_vector_store_result:
  assumes "build_vector_store lib embedded = Inr (index, texts)"
  shows "texts = map etext embedded \<and> length (vectors index) = length embedded"
  using assms
  by (auto simp: build_vector_store_def and_then_def np_array_def np_rows_length
      split: sum.splits if_splits)

lemma ranked_labels: "snd ` set (ranked lib index q) \<subseteq> {0..<length (vectors index)}"
  by (auto simp: ranked_def List.map_filter_def)

lemma ranked_length: "length (ranked lib index q) \<le> length (vectors index)"
proof -
  have "length (ranked lib index q) \<le> length [0..<length (vectors index)]"
    unfolding ranked_def List.map_filter_def length_map by (rule length_filter_le)
  then show ?thesis by simp
qed

lemma ranked_all:
  assumes "list_all (\<lambda>v. l2_distance lib v q \<noteq> None) (vectors index)"
    and "i < length (vectors index)"
  shows "i \<in> snd ` set (ranked lib index q)"
proof -
  from assms obtain d where d: "l2_distance lib (vectors index ! i) q = Some d"
    by (auto simp: list_all_length)
  with assms(2) have "(d, i) \<in> set (ranked lib index q)"
    by (auto simp: ranked_def List.map_filter_def intro!: image_eqI [where x = i])
  then show ?thesis by force
qed

text \<open>
  The labels of a search: there are \<open>top_k\<close> of them, whatever the index holds; each is
  \<open>-1\<close> or the label of a stored vector; and when the index holds at most \<open>top_k\<close>
  vectors and has a distance for each, every stored vector is among them.
\<close>

lemma faiss_search_labels:
  assumes "faiss_search lib index q top_k = Inr labels"
  shows "length labels = nat top_k"
    and "list_all (\<lambda>l. - 1 \<le> l \<and> l < int (length (vectors index))) labels"
    and "length (vectors index) \<le> nat top_k \<Longrightarrow>
         list_all (\<lambda>v. l2_distance lib v q \<noteq> None) (vectors index) \<Longrightarrow>
         i < length (vectors index) \<Longrightarrow> int i \<in> set labels"
proof -
  let ?n = "length (vectors index)"
  let ?nearest = "map snd (sort_key fst (ranked lib index q))"
  from assms have labels: "labels = map int (take (nat top_k) ?nearest)
      @ replicate (nat top_k - length ?nearest) (- 1)"
    by (simp add: faiss_search_def Let_def split: if_splits)
  have set: "set ?nearest = snd ` set (ranked lib index q)" by simp
  have len: "length ?nearest \<le> ?n" using ranked_length [of lib index q] by simp
  show "length labels = nat top_k" unfolding labels by simp
  have "set (take (nat top_k) ?nearest) \<subseteq> {0..<?n}"
    using set_take_subset [of "nat top_k" ?nearest] ranked_labels [of lib index q] set
    by blast
  then show "list_all (\<lambda>l. - 1 \<le> l \<and> l < int ?n) labels"
    unfolding labels by (auto simp: list_all_iff)
  assume "?n \<le> nat top_k"
    and all: "list_all (\<lambda>v. l2_distance lib v q \<noteq> None) (vectors index)"
    and i: "i < ?n"
  then have whole: "take (nat top_k) ?nearest = ?nearest" using len by simp
  from ranked_all [OF all i] obtain d where "(d, i) \<in> set (ranked lib index q)" by auto
  then have "int i \<in> set (map int ?nearest)" by force
  then show "int i \<in> set labels" unfolding labels whole by simp
qed

lemma py_index_all_result:
  assumes "py_index_all xs labels = Inr rel"
  shows "length rel = length labels"
    and "set rel \<subseteq> set xs"
    and "i < length xs \<Longrightarrow> int i \<in> set labels \<Longrightarrow> xs ! i \<in> set rel"
  using assms
proof (induction labels arbitrary: rel)
  case Nil
  { case 1 then show ?case by simp }
  { case 2 then show ?case by simp }
  { case 3 then show ?case by simp }
next
  case (Cons l labels)
  { case 1 then show ?case using Cons.IH(1) by (auto split: sum.splits) }
  { case 2 then show ?case using Cons.IH(2)
      by (auto simp: py_index_def Let_def split: sum.splits if_splits) }
  { case 3 then show ?case using Cons.IH(3)
      by (auto simp: py_index_def Let_def split: sum.splits if_splits) }
qed

text \<open>
  What a search returns: \<open>top_k\<close> texts, whatever the index holds; each of them one of
  the texts; and every text, when there are at most \<open>top_k\<close> of them and the search had a
  distance for every stored vector.
\<close>

lemma semantic_search_result:
  assumes "semantic_search lib post w index texts query top_k = (Inr rel, w')"
  shows "length rel = nat top_k"
    and "set rel \<subseteq> set texts"
    and "length (vectors index) = length texts \<Longrightarrow> length texts \<le> nat top_k \<Longrightarrow>
         (\<And>q. and_then (embedding_of (fst (post w EMBEDDINGS_URL query))) (np_row lib) = Inr q
            \<Longrightarrow> list_all (\<lambda>v. l2_distance lib v q \<noteq> None) (vectors index)) \<Longrightarrow>
         set texts \<subseteq> set rel"
proof -
  obtain res w1 where p: "post w EMBEDDINGS_URL query = (res, w1)"
    by (cases "post w EMBEDDINGS_URL query")
  with assms obtain q labels where
    qv: "and_then (embedding_of res) (np_row lib) = Inr q" and
    search: "faiss_search lib index q top_k = Inr labels" and
    idx: "py_index_all texts labels = Inr rel"
    by (auto simp: semantic_search_def and_then_def split: if_splits sum.splits)
  from py_index_all_result(1) [OF idx] faiss_search_labels(1) [OF search]
  show "length rel = nat top_k" by simp
  from py_index_all_result(2) [OF idx] show "set rel \<subseteq> set texts" .
  assume n: "length (vectors index) = length texts" and k: "length texts \<le> nat top_k"
    and all: "\<And>q. and_then (embedding_of (fst (post w EMBEDDINGS_URL query))) (np_row lib) = Inr q
            \<Longrightarrow> list_all (\<lambda>v. l2_distance lib v q \<noteq> None) (vectors index)"
  from all [of q] qv p have ranked: "list_all (\<lambda>v. l2_distance lib v q \<noteq> None) (vectors index)"
    by simp
  show "set texts \<subseteq> set rel"
  proof
    fix t assume "t \<in> set texts"
    then obtain i where i: "i < length texts" "texts ! i = t"
      by (auto simp: in_set_conv_nth)
    with faiss_search_labels(3) [OF search _ ranked, of i] n k have "int i \<in> set labels"
      by simp
    from py_index_all_result(3) [OF idx i(1) this] i(2) show "t \<in> set rel" by simp
  qed
qed

section \<open>Concrete runs of the pipeline\<close>

lemma http_response_sel [simp]:
  "status_code (http_response code body) = code"
  "body_text (http_response code body) = body"
  "body_json (http_response code body) = json_loads body"
  by (simp_all add: http_response_def)

lemma scripted_next: "scripted (res # rest) url input = (res, rest)"
  by (simp add: scripted_def)

lemma embedding_body_2_json:
  "json_loads EMBEDDING_BODY_2 =
     Inr (PDict [(''data'', PList [PDict [(''embedding'', PList [PInt 3, PInt 2])]])])"
  by code_simp

lemma embedding_of_sample_2:
  "embedding_of (http_response 200 EMBEDDING_BODY_2) = Inr (PList [PInt 3, PInt 2])"
  by (simp add: embedding_of_def embedding_body_2_json and_then_def
      item_str_def item_int_def py_index_def)

lemma embed_one_sample:
  "embed_chunks scripted (http_response 200 EMBEDDING_BODY # rest) [c] =
     (Inr [\<lparr>etext = c, embedding = PList [PInt 1, PInt 2]\<rparr>], rest)"
  by (simp add: embed_chunks_def scripted_next embedding_of_sample)

lemma embed_two_sample:
  "embed_chunks scripted
     (http_response 200 EMBEDDING_BODY # http_response 200 EMBEDDING_BODY_2 # rest) [c1, c2] =
     (Inr [\<lparr>etext = c1, embedding = PList [PInt 1, PInt 2]\<rparr>,
           \<lparr>etext = c2, embedding = PList [PInt 3, PInt 2]\<rparr>], rest)"
  by (simp add: embed_chunks_def scripted_next embedding_of_sample embedding_of_sample_2)

lemma exact_float32_small [simp]:
  "exact_float32 (PInt 1) = Some (Num 1)"
  "exact_float32 (PInt 2) = Some (Num 2)"
  "exact_float32 (PInt 3) = Some (Num 3)"
  by (simp_all add: exact_float32_def to_float32_def)

lemma np_row_sample: "np_row exact_numbers (PList [PInt 1, PInt 2]) = Inr [Num 1, Num 2]"
  by (simp add: np_row_def exact_numbers_def)

lemma np_row_sample_2: "np_row exact_numbers (PList [PInt 3, PInt 2]) = Inr [Num 3, Num 2]"
  by (simp add: np_row_def exact_numbers_def)

lemma l2_same: "l2_distance exact_numbers [Num 1, Num 2] [Num 1, Num 2] = Some 0"
  by (simp add: exact_numbers_def exact_l2_def l2sq_def)

lemma l2_other: "l2_distance exact_numbers [Num 3, Num 2] [Num 1, Num 2] = Some 4"
  by (simp add: exact_numbers_def exact_l2_def l2sq_def)

lemma build_one_sample:
  "build_vector_store exact_numbers [\<lparr>etext = c, embedding = PList [PInt 1, PInt 2]\<rparr>] =
     Inr (\<lparr>dim = 2, vectors = [[Num 1, Num 2]]\<rparr>, [c])"
  by (simp add: build_vector_store_def and_then_def py_index_def py_len_def np_array_def
      np_row_sample)

lemma build_two_sample:
  "build_vector_store exact_numbers
     [\<lparr>etext = c1, embedding = PList [PInt 1, PInt 2]\<rparr>,
      \<lparr>etext = c2, embedding = PList [PInt 3, PInt 2]\<rparr>] =
     Inr (\<lparr>dim = 2, vectors = [[Num 1, Num 2], [Num 3, Num 2]]\<rparr>, [c1, c2])"
  by (simp add: build_vector_store_def and_then_def py_index_def py_len_def np_array_def
      np_row_sample np_row_sample_2)

lemma ranked_one:
  "ranked exact_numbers \<lparr>dim = 2, vectors = [[Num 1, Num 2]]\<rparr> [Num 1, Num 2] = [(0, 0)]"
  by (simp add: ranked_def List.map_filter_def l2_same)

lemma ranked_two:
  "ranked exact_numbers \<lparr>dim = 2, vectors = [[Num 1, Num 2], [Num 3, Num 2]]\<rparr>
     [Num 1, Num 2] = [(0, 0), (4, 1)]"
  by (simp add: ranked_def List.map_filter_def l2_same l2_other upt_rec [of 0])

lemma search_one_sample:
  "faiss_search exact_numbers \<lparr>dim = 2, vectors = [[Num 1, Num 2]]\<rparr> [Num 1, Num 2] 3 =
     Inr [0, - 1, - 1]"
  by (simp add: faiss_search_def ranked_one numeral_3_eq_3)

lemma search_two_sample:
  "faiss_search exact_numbers \<lparr>dim = 2, vectors = [[Num 1, Num 2], [Num 3, Num 2]]\<rparr>
     [Num 1, Num 2] 3 = Inr [0, 1, - 1]"
  by (simp add: faiss_search_def ranked_two numeral_3_eq_3)

lemma semantic_search_one_sample:
  "semantic_search exact_numbers scripted (http_response 200 EMBEDDING_BODY # rest)
     \<lparr>dim = 2, vectors = [[Num 1, Num 2]]\<rparr> [c] query 3 = (Inr [c, c, c], rest)"
  by (simp add: semantic_search_def scripted_next embedding_of_sample and_then_def
      np_row_sample search_one_sample py_index_def)

lemma semantic_search_two_sample:
  "semantic_search exact_numbers scripted (http_response 200 EMBEDDING_BODY # rest)
     \<lparr>dim = 2, vectors = [[Num 1, Num 2], [Num 3, Num 2]]\<rparr> [c1, c2] query 3 =
     (Inr [c1, c2, c2], rest)"
  by (simp add: semantic_search_def scripted_next embedding_of_sample and_then_def
      np_row_sample search_two_sample py_index_def)

lemma retrieve_one_sample:
  "retrieve_chunks exact_numbers scripted
     (http_response 200 EMBEDDING_BODY # http_response 200 EMBEDDING_BODY # rest) [c] =
     (Inr [c, c, c], rest)"
  by (simp add: retrieve_chunks_def embed_one_sample build_one_sample semantic_search_one_sample)

lemma retrieve_two_sample:
  "retrieve_chunks exact_numbers scripted
     (http_response 200 EMBEDDING_BODY # http_response 200 EMBEDDING_BODY_2
        # http_response 200 EMBEDDING_BODY # rest) [c1, c2] =
     (Inr [c1, c2, c2], rest)"
  by (simp add: retrieve_chunks_def embed_two_sample build_two_sample semantic_search_two_sample)

lemma all_ranked_two_sample:
  "all_ranked exact_numbers scripted
     (http_response 200 EMBEDDING_BODY # http_response 200 EMBEDDING_BODY_2
        # http_response 200 EMBEDDING_BODY # rest) [c1, c2]"
  by (simp add: all_ranked_def embed_two_sample build_two_sample scripted_next
      embedding_of_sample and_then_def np_row_sample l2_same l2_other)

lemma chunk_text_abc: "chunk_text ''abc'' 800 100 = Some [''abc'']"
  by (simp add: chunk_text_def chunk_loop.simps py_slice_def)

text \<open>
  Claim C1 on a document of one chunk. The text \<^verbatim>\<open>"abc"\<close> is one chunk, the index
  built from it holds one vector, and the search with \<open>top_k = 3\<close>, the value the endpoint
  passes, returns three texts: the labels are \<open>[0, -1, -1]\<close>, and the subscript \<open>-1\<close>
  reads the last text. By \<open>semantic_search_result\<close> the result has \<open>top_k\<close> entries
  whenever the search returns, whatever the index holds and whatever the libraries compute.
\<close>

theorem short_document_search_pads:
  "chunk_text ''abc'' 800 100 = Some [''abc'']
   \<and> build_vector_store exact_numbers [\<lparr>etext = ''abc'', embedding = PList [PInt 1, PInt 2]\<rparr>] =
       Inr (\<lparr>dim = 2, vectors = [[Num 1, Num 2]]\<rparr>, [''abc''])
   \<and> semantic_search exact_numbers scripted [http_response 200 EMBEDDING_BODY]
       \<lparr>dim = 2, vectors = [[Num 1, Num 2]]\<rparr> [''abc''] QUERY 3 =
       (Inr [''abc'', ''abc'', ''abc''], [])
   \<and> retrieve_chunks exact_numbers scripted
       [http_response 200 EMBEDDING_BODY, http_response 200 EMBEDDING_BODY] [''abc''] =
       (Inr [''abc'', ''abc'', ''abc''], [])"
  by (simp only: chunk_text_abc build_one_sample semantic_search_one_sample retrieve_one_sample)

text \<open>
  Claim C3 on a completion provider that answers 503. The completion client returns its
  error mapping; the parser, given that mapping, raises \<^verbatim>\<open>TypeError\<close> in \<^verbatim>\<open>re.sub\<close>;
  and the endpoint ends in that exception, with no report.
\<close>

theorem structured_error_breaks_parser:
  "analyze_document_with_ai scripted [http_response 503 ''Service Unavailable''] ''abc'' =
     (Inr (PDict [(''error'', PStr ''AI analysis unavailable''), (''status_code'', PInt 503),
                  (''response'', PStr ''Service Unavailable'')]), [])
   \<and> parse_ai_json json_loads
        (PDict [(''error'', PStr ''AI analysis unavailable''), (''status_code'', PInt 503),
                (''response'', PStr ''Service Unavailable'')]) = Inl TypeError
   \<and> validate_document json_loads exact_numbers scripted
        [http_response 200 EMBEDDING_BODY, http_response 200 EMBEDDING_BODY,
         http_response 503 ''Service Unavailable''] ''abc'' = Some (Inl TypeError, [])"
proof (intro conjI)
  show a: "analyze_document_with_ai scripted [http_response 503 ''Service Unavailable''] ''abc'' =
     (Inr (PDict [(''error'', PStr ''AI analysis unavailable''), (''status_code'', PInt 503),
                  (''response'', PStr ''Service Unavailable'')]), [])"
    by (simp add: analyze_document_with_ai_def scripted_next)
  show p: "parse_ai_json json_loads
        (PDict [(''error'', PStr ''AI analysis unavailable''), (''status_code'', PInt 503),
                (''response'', PStr ''Service Unavailable'')]) = Inl TypeError"
    by (simp add: parse_ai_json_def)
  have s: "py_strip ''abc'' = ''abc''" by (simp add: py_strip_def py_isspace_def)
  have an: "analyze_document_with_ai scripted [http_response 503 ''Service Unavailable''] ctx =
     (Inr (PDict [(''error'', PStr ''AI analysis unavailable''), (''status_code'', PInt 503),
                  (''response'', PStr ''Service Unavailable'')]), [])" for ctx
    by (simp add: analyze_document_with_ai_def scripted_next)
  show "validate_document json_loads exact_numbers scripted
        [http_response 200 EMBEDDING_BODY, http_response 200 EMBEDDING_BODY,
         http_response 503 ''Service Unavailable''] ''abc'' = Some (Inl TypeError, [])"
    by (simp add: validate_document_def s chunk_text_abc retrieve_one_sample an p and_then_def)
qed

theorem embed_chunks_all_or_nothing_witness:
  "fst (embed_chunks scripted [http_response 200 EMBEDDING_BODY, http_response 500 ''oops'']
          [''a'']) = Inr [\<lparr>etext = ''a'', embedding = PList [PInt 1, PInt 2]\<rparr>]
   \<and> map etext [\<lparr>etext = ''a'', embedding = PList [PInt 1, PInt 2]\<rparr>] = [''a'']
   \<and> fst (embed_chunks scripted [http_response 200 EMBEDDING_BODY, http_response 500 ''oops'']
            ([''a''] @ ''b'' # [''c''])) = Inl (RuntimeError ''Embedding generation failed'')"
  using embed_chunks_all_or_nothing
    [of scripted "[http_response 200 EMBEDDING_BODY, http_response 500 ''oops'']" "[''a'']"
        "[\<lparr>etext = ''a'', embedding = PList [PInt 1, PInt 2]\<rparr>]"
        "[''a'']" "[\<lparr>etext = ''a'', embedding = PList [PInt 1, PInt 2]\<rparr>]"
        "[http_response 500 ''oops'']" "''b''" "[''c'']"]
  by (simp add: embed_one_sample scripted_next)

text \<open>Claim C8 on two statuses: the errors for 500 and for 404 are the same value.\<close>

theorem embedding_error_status_counterexample:
  "fst (embed_chunks scripted [http_response 500 ''oops''] [''a'']) =
     Inl (RuntimeError ''Embedding generation failed'')
   \<and> fst (embed_chunks scripted [http_response 404 ''gone''] [''a'']) =
     Inl (RuntimeError ''Embedding generation failed'')"
  by (simp add: embed_chunks_def scripted_next)

lemma py_slice_all: "int (length xs) \<le> m \<Longrightarrow> py_slice xs 0 m = xs"
  by (simp add: py_slice_def Let_def min_def)

text \<open>
  Claim C5, as the code has it. The 1300 characters of the scenario, cut with
  \<open>chunk_size = 800\<close> and \<open>overlap = 100\<close>, are exactly two chunks, of 800 and of 600
  characters (from the offsets 0 and 700). Whenever the retrieval with \<open>top_k = 3\<close>
  returns, whatever the providers answer and whatever the numeric libraries compute, every
  text it returns is one of the two chunks, and both chunks are returned when the search
  had a distance below the largest single-precision number for each of the two vectors;
  and the context assembled from the results is their full concatenation, which the cut at
  2500 characters leaves unchanged.
\<close>

theorem hello_scenario:
  "chunk_text hello_text 800 100 = Some [take 800 hello_text, drop 700 hello_text]
   \<and> map length [take 800 hello_text, drop 700 hello_text] = [800, 600]
   \<and> (retrieve_chunks lib post w [take 800 hello_text, drop 700 hello_text] =
         (Inr relevant_chunks, w') \<longrightarrow>
       set relevant_chunks \<subseteq> {take 800 hello_text, drop 700 hello_text}
       \<and> (all_ranked lib post w [take 800 hello_text, drop 700 hello_text] \<longrightarrow>
            set relevant_chunks = {take 800 hello_text, drop 700 hello_text})
       \<and> assemble_context relevant_chunks = py_join [CHR 0x0A] relevant_chunks)"
proof (intro conjI impI)
  let ?chunks = "[take 800 hello_text, drop 700 hello_text]"
  show "chunk_text hello_text 800 100 = Some ?chunks" by (rule hello_chunks)
  show "map length ?chunks = [800, 600]" by (simp add: hello_length)
  assume r: "retrieve_chunks lib post w ?chunks = (Inr relevant_chunks, w')"
  then obtain embedded w1 index texts where
    e: "embed_chunks post w ?chunks = (Inr embedded, w1)" and
    b: "build_vector_store lib embedded = Inr (index, texts)" and
    s: "semantic_search lib post w1 index texts QUERY 3 = (Inr relevant_chunks, w')"
    by (auto simp: retrieve_chunks_def split: prod.splits sum.splits)
  from e have m: "map etext embedded = ?chunks"
    using embed_loop_texts [of post w ?chunks "[]" embedded w1] by (simp add: embed_chunks_def)
  from build_vector_store_result [OF b]
  have t0: "texts = map etext embedded" and n0: "length (vectors index) = length embedded"
    by simp_all
  from t0 m have texts: "texts = ?chunks" by simp
  from t0 n0 have n: "length (vectors index) = length texts" by simp
  from semantic_search_result(1,2) [OF s] texts
  have len: "length relevant_chunks = 3" and sub: "set relevant_chunks \<subseteq> set ?chunks"
    by simp_all
  from sub show sub': "set relevant_chunks \<subseteq> {take 800 hello_text, drop 700 hello_text}"
    by simp
  from len obtain a b c where abc: "relevant_chunks = [a, b, c]"
    by (auto simp: length_Suc_conv numeral_3_eq_3)
  with sub have "length a \<le> 800" "length b \<le> 800" "length c \<le> 800"
    by (auto simp: hello_length)
  then have "int (length (py_join [CHR 0x0A] relevant_chunks)) \<le> MAX_CONTEXT_CHARS"
    by (simp add: abc MAX_CONTEXT_CHARS_def)
  then show "assemble_context relevant_chunks = py_join [CHR 0x0A] relevant_chunks"
    unfolding assemble_context_def by (rule py_slice_all)
  assume "all_ranked lib post w ?chunks"
  with e b have all: "\<And>q. and_then (embedding_of (fst (post w1 EMBEDDINGS_URL QUERY)))
        (np_row lib) = Inr q \<Longrightarrow>
      list_all (\<lambda>v. l2_distance lib v q \<noteq> None) (vectors index)"
    by (simp add: all_ranked_def)
  from semantic_search_result(3) [OF s n _ all] texts
  have "set ?chunks \<subseteq> set relevant_chunks" by simp
  with sub' show "set relevant_chunks = {take 800 hello_text, drop 700 hello_text}"
    by auto
qed

theorem hello_scenario_witness:
  "retrieve_chunks exact_numbers scripted
     [http_response 200 EMBEDDING_BODY, http_response 200 EMBEDDING_BODY_2,
      http_response 200 EMBEDDING_BODY] [take 800 hello_text, drop 700 hello_text] =
     (Inr [take 800 hello_text, drop 700 hello_text, drop 700 hello_text], [])
   \<and> all_ranked exact_numbers scripted
       [http_response 200 EMBEDDING_BODY, http_response 200 EMBEDDING_BODY_2,
        http_response 200 EMBEDDING_BODY] [take 800 hello_text, drop 700 hello_text]
   \<and> set [take 800 hello_text, drop 700 hello_text, drop 700 hello_text] =
       {take 800 hello_text, drop 700 hello_text}
   \<and> assemble_context [take 800 hello_text, drop 700 hello_text, drop 700 hello_text] =
       py_join [CHR 0x0A] [take 800 hello_text, drop 700 hello_text, drop 700 hello_text]"
  using hello_scenario
    [of exact_numbers scripted "[http_response 200 EMBEDDING_BODY,
      http_response 200 EMBEDDING_BODY_2, http_response 200 EMBEDDING_BODY]"
      "[take 800 hello_text, drop 700 hello_text, drop 700 hello_text]" "[]"]
  by (simp add: retrieve_two_sample all_ranked_two_sample)

text \<open>The scenario's text is cut into two chunks, not three.\<close>

theorem hello_three_chunks_counterexample:
  "map_option length (chunk_text hello_text 800 100) = Some 2
   \<and> map_option (map length) (chunk_text hello_text 800 100) = Some [800, 600]"
  by (simp add: hello_chunks hello_length)

end
